theory Spec2Isabelle
  imports Main "HOL-Library.Word"
begin

section \<open>Go values used by the validator\<close>

text \<open>
  Go's \<^verbatim>\<open>int64\<close> and \<^verbatim>\<open>uint64\<close> are both 64-bit words: arithmetic wraps,
  the conversions \<^verbatim>\<open>int64(x)\<close> and \<^verbatim>\<open>uint64(x)\<close> keep the bits. A signed
  comparison is \<open><s\<close>, an unsigned one is \<open><\<close>. A \<^verbatim>\<open>*big.Int\<close> is an
  unbounded \<open>int\<close>; where the source may hold a nil pointer the model uses
  \<open>option\<close>.
\<close>

type_synonym int64 = "64 word"
type_synonym uint64 = "64 word"

datatype error =
    ErrRecordNotFound
  | ErrInvalidStatus
  | ErrInvalidSignatureStatus
  | ErrOther string

text \<open>\<^verbatim>\<open>(*big.Int).Int64()\<close>: the low 64 bits of the magnitude, negated for a negative value.\<close>

definition big_Int64 :: "int \<Rightarrow> int64" where
  "big_Int64 x = (if x < 0 then - (word_of_int (- x)) else word_of_int x)"

text \<open>\<^verbatim>\<open>strconv.FormatUint(n, 10)\<close> and \<^verbatim>\<open>(*big.Int).String()\<close>: decimal digits, most significant first.\<close>

definition digits :: string where
  "digits = ''0123456789abcdefghijklmnopqrstuvwxyz''"

definition digit_char :: "nat \<Rightarrow> char" where
  "digit_char d = digits ! d"

fun FormatUint :: "nat \<Rightarrow> string" where
  "FormatUint n =
     (if n < 10 then [digit_char n]
      else FormatUint (n div 10) @ [digit_char (n mod 10)])"

declare FormatUint.simps [simp del]

definition big_String :: "int \<Rightarrow> string" where
  "big_String x = (if x < 0 then CHR ''-'' # FormatUint (nat (- x)) else FormatUint (nat x))"

text \<open>
  Reading a decimal rendering back (the digit value of a character, then base 10); used
  only to show that a rendered amount determines the number.
\<close>

definition digit_val :: "char \<Rightarrow> nat" where
  "digit_val c = of_char c - 48"

definition ParseUint :: "string \<Rightarrow> nat" where
  "ParseUint s = foldl (\<lambda>acc c. 10 * acc + digit_val c) 0 s"

section \<open>Transfer repository: guarded status updates (transfer.go)\<close>

text \<open>
  Modelled from the spec: the status constants of package \<^verbatim>\<open>entity/transfer\<close> are
  declared outside the given sources; they are distinct strings, named here after
  the identifiers the repository uses.
\<close>

definition StatusInitial :: string where "StatusInitial = ''StatusInitial''"
definition StatusInsufficientFee :: string where "StatusInsufficientFee = ''StatusInsufficientFee''"
definition StatusInProgress :: string where "StatusInProgress = ''StatusInProgress''"
definition StatusCompleted :: string where "StatusCompleted = ''StatusCompleted''"
definition StatusSignatureSubmitted :: string where "StatusSignatureSubmitted = ''StatusSignatureSubmitted''"
definition StatusSignatureMined :: string where "StatusSignatureMined = ''StatusSignatureMined''"
definition StatusSignatureFailed :: string where "StatusSignatureFailed = ''StatusSignatureFailed''"
definition StatusEthTxSubmitted :: string where "StatusEthTxSubmitted = ''StatusEthTxSubmitted''"
definition StatusEthTxMined :: string where "StatusEthTxMined = ''StatusEthTxMined''"
definition StatusEthTxReverted :: string where "StatusEthTxReverted = ''StatusEthTxReverted''"
definition StatusEthTxMsgSubmitted :: string where "StatusEthTxMsgSubmitted = ''StatusEthTxMsgSubmitted''"
definition StatusEthTxMsgMined :: string where "StatusEthTxMsgMined = ''StatusEthTxMsgMined''"
definition StatusEthTxMsgFailed :: string where "StatusEthTxMsgFailed = ''StatusEthTxMsgFailed''"

text \<open>The status columns of a persisted transfer row (\<^verbatim>\<open>entity.Transfer\<close>).\<close>

record TransferRow =
  TransactionID :: string
  Status :: string
  SignatureMsgStatus :: string
  EthTxStatus :: string
  EthTxMsgStatus :: string

type_synonym transfers_table = "TransferRow list"

text \<open>
  \<^verbatim>\<open>dbClient.Model(..).Where("transaction_id = ?", txId).UpdateColumn(column, value).Error\<close>:
  the database either fails (\<open>fault\<close> is the error it reports, no row changes) or
  writes the value into the named column of every row with that transaction id.
\<close>

definition set_column :: "string \<Rightarrow> string \<Rightarrow> TransferRow \<Rightarrow> TransferRow" where
  "set_column statusColumn v r =
     (if statusColumn = ''status'' then r\<lparr>Status := v\<rparr>
      else if statusColumn = ''signature_msg_status'' then r\<lparr>SignatureMsgStatus := v\<rparr>
      else if statusColumn = ''eth_tx_status'' then r\<lparr>EthTxStatus := v\<rparr>
      else if statusColumn = ''eth_tx_msg_status'' then r\<lparr>EthTxMsgStatus := v\<rparr>
      else r)"

definition UpdateColumn ::
  "error option \<Rightarrow> transfers_table \<Rightarrow> string \<Rightarrow> string \<Rightarrow> string \<Rightarrow> error option \<times> transfers_table" where
  "UpdateColumn fault db txId statusColumn v =
     (case fault of
        Some e \<Rightarrow> (Some e, db)
      | None \<Rightarrow> (None, map (\<lambda>r. if TransactionID r = txId then set_column statusColumn v r else r) db))"

fun isValidStatus :: "string \<Rightarrow> string list \<Rightarrow> bool" where
  "isValidStatus status [] = False"
| "isValidStatus status (option # possibleStatuses) =
     (if status = option then True else isValidStatus status possibleStatuses)"

definition baseUpdateStatus ::
  "error option \<Rightarrow> transfers_table \<Rightarrow> string \<Rightarrow> string \<Rightarrow> string \<Rightarrow> string list
     \<Rightarrow> error option \<times> transfers_table" where
  "baseUpdateStatus fault db statusColumn txId status possibleStatuses =
     (if \<not> isValidStatus status possibleStatuses then (Some ErrInvalidStatus, db)
      else UpdateColumn fault db txId statusColumn status)"

definition updateSignatureStatus ::
  "error option \<Rightarrow> transfers_table \<Rightarrow> string \<Rightarrow> string \<Rightarrow> error option \<times> transfers_table" where
  "updateSignatureStatus fault db txId status =
     baseUpdateStatus fault db ''signature_msg_status'' txId status
       [StatusSignatureSubmitted, StatusSignatureMined, StatusSignatureFailed]"

definition updateEthereumTxStatus ::
  "error option \<Rightarrow> transfers_table \<Rightarrow> string \<Rightarrow> string \<Rightarrow> error option \<times> transfers_table" where
  "updateEthereumTxStatus fault db txId status =
     baseUpdateStatus fault db ''eth_tx_status'' txId status
       [StatusEthTxSubmitted, StatusEthTxMined, StatusEthTxReverted]"

definition updateEthereumTxMsgStatus ::
  "error option \<Rightarrow> transfers_table \<Rightarrow> string \<Rightarrow> string \<Rightarrow> error option \<times> transfers_table" where
  "updateEthereumTxMsgStatus fault db txId status =
     baseUpdateStatus fault db ''eth_tx_msg_status'' txId status
       [StatusEthTxMsgSubmitted, StatusEthTxMsgMined, StatusEthTxMsgFailed]"

definition updateStatus ::
  "error option \<Rightarrow> transfers_table \<Rightarrow> string \<Rightarrow> string \<Rightarrow> error option \<times> transfers_table" where
  "updateStatus fault db txId status =
     (if status \<noteq> StatusInitial \<and> status \<noteq> StatusInsufficientFee \<and>
         status \<noteq> StatusInProgress \<and> status \<noteq> StatusCompleted
      then (Some ErrInvalidSignatureStatus, db)
      else UpdateColumn fault db txId ''status'' status)"

definition UpdateStatusSignatureMined ::
  "error option \<Rightarrow> transfers_table \<Rightarrow> string \<Rightarrow> error option \<times> transfers_table" where
  "UpdateStatusSignatureMined fault db txId = updateSignatureStatus fault db txId StatusSignatureMined"

definition UpdateStatusSignatureFailed ::
  "error option \<Rightarrow> transfers_table \<Rightarrow> string \<Rightarrow> error option \<times> transfers_table" where
  "UpdateStatusSignatureFailed fault db txId = updateSignatureStatus fault db txId StatusSignatureFailed"

text \<open>The row used in the concrete evaluations of the status updates.\<close>

definition mined_row :: TransferRow where
  "mined_row = \<lparr>TransactionID = ''0xabc-1'', Status = StatusInProgress,
                SignatureMsgStatus = StatusSignatureMined,
                EthTxStatus = [], EthTxMsgStatus = []\<rparr>"

section \<open>EVM router watcher (package evm)\<close>

subsection \<open>Events, transfers and observable effects\<close>

text \<open>
  \<^verbatim>\<open>types.Log\<close> with the fields the watcher reads. Hashes and addresses are kept
  in the string form the source prints and compares them in.
\<close>

record Log =
  Topics :: "string list"
  TxHash :: string
  Index :: nat
  BlockNumber :: uint64
  Removed :: bool

record RouterLock =
  lk_Raw :: Log
  lk_TargetChain :: int
  lk_Token :: string
  lk_Receiver :: "8 word list"
  lk_Amount :: int
  lk_ServiceFee :: int

record RouterBurn =
  bn_Raw :: Log
  bn_TargetChain :: int
  bn_Token :: string
  bn_Amount :: int
  bn_Receiver :: "8 word list"

record RouterMint =
  mt_Raw :: Log
  mt_SourceChain :: int
  mt_TransactionId :: string
  mt_Token :: string

record RouterUnlock =
  ul_Raw :: Log
  ul_SourceChain :: int
  ul_TransactionId :: string
  ul_Token :: string

text \<open>The registry's entry for a native asset (a pointer in the source, nil when absent).\<close>

record native_asset =
  na_Asset :: string
  na_ChainId :: int64
  na_MinAmount :: int

text \<open>\<^verbatim>\<open>transfer.Transfer\<close>; an unset \<^verbatim>\<open>Timestamp\<close> is Go's empty string.\<close>

record Transfer =
  TransactionId :: string
  SourceChainId :: int64
  TargetChainId :: int64
  NativeChainId :: int64
  SourceAsset :: string
  TargetAsset :: string
  NativeAsset :: string
  Receiver :: string
  Amount :: string
  Timestamp :: string

text \<open>Queue topics (package \<^verbatim>\<open>constants\<close>) the two transfer handlers push to.\<close>

datatype topic =
    HederaFeeTransfer
  | HederaMintHtsTransfer
  | TopicMessageSubmission
  | ReadOnlyHederaTransfer
  | ReadOnlyHederaMintHtsTransfer
  | ReadOnlyTransferSave

datatype metric =
    CreateMajorityReachedIfNotExists
  | CreateFeeTransferredIfNotExists
  | CreateUserGetHisTokensIfNotExists
  | SetUserGetHisTokens

datatype level = LvDebug | LvInfo | LvError

text \<open>
  What a handler does to the outside, in order: a log line, a call into the metrics
  helper (source chain, target chain, asset, transaction id), a queue push, the detached
  membership reload, the log query sent to the chain client, a sleep of the polling
  interval.
\<close>

datatype effect =
    Logged level
  | Metric metric int64 int64 string string
  | Push topic Transfer
  | ReloadMembers
  | FilterQuery int64 int64
  | Sleep

text \<open>A Go function either returns or panics (here: a nil-pointer dereference).\<close>

datatype exit = Returned | Panicked

fun pushes :: "effect list \<Rightarrow> (topic \<times> Transfer) list" where
  "pushes [] = []"
| "pushes (Push t tr # es) = (t, tr) # pushes es"
| "pushes (e # es) = pushes es"

fun metrics :: "effect list \<Rightarrow> metric list" where
  "metrics [] = []"
| "metrics (Metric m s t a i # es) = m # metrics es"
| "metrics (e # es) = metrics es"

fun queries :: "effect list \<Rightarrow> (int64 \<times> int64) list" where
  "queries [] = []"
| "queries (FilterQuery a b # es) = (a, b) # queries es"
| "queries (e # es) = queries es"

definition pushed_amounts :: "effect list \<Rightarrow> string list" where
  "pushed_amounts es = map (\<lambda>p. Amount (snd p)) (pushes es)"

subsection \<open>The watcher and its collaborators\<close>

record EventIDs =
  id_Mint :: string
  id_Burn :: string
  id_Lock :: string
  id_Unlock :: string
  id_MemberUpdated :: string

record FilterConfig =
  topics :: "string list list"
  addresses :: "string list"
  mintHash :: string
  burnHash :: string
  lockHash :: string
  unlockHash :: string
  memberUpdatedHash :: string
  maxLogsBlocks :: int64

record Watcher =
  dbIdentifier :: string
  targetBlock :: uint64
  sleepDuration :: int64
  validator :: bool
  filterConfig :: FilterConfig

text \<open>
  The collaborators are interfaces implemented outside the given sources; the model takes
  what each call answers as a parameter. A Go result pair \<^verbatim>\<open>(*T, error)\<close> is a pair of
  options where the source dereferences the pointer, so that a nil pointer beside an
  error, the usual shape of a failed call, is among the answers. \<^verbatim>\<open>HederaNetworkId\<close>
  is the constant of package \<^verbatim>\<open>constants\<close>; \<^verbatim>\<open>abi_JSON\<close> is the outcome of parsing the
  router ABI. The three faults are what the status repository answers when it fails.
  Within one call of a function of the watcher every collaborator answers the same
  question the same way.
\<close>

record Collaborators =
  RetryBlockNumber :: "error + uint64"
  BlockConfirmations :: uint64
  RetryFilterLogs :: "int64 \<Rightarrow> int64 \<Rightarrow> error + Log list"
  ChainID :: "int option \<times> error option"
  GetBlockTimestamp :: "int \<Rightarrow> uint64"
  ParseLockLog :: "Log \<Rightarrow> RouterLock option \<times> error option"
  ParseUnlockLog :: "Log \<Rightarrow> RouterUnlock option \<times> error option"
  ParseMintLog :: "Log \<Rightarrow> RouterMint option \<times> error option"
  ParseBurnLog :: "Log \<Rightarrow> RouterBurn option \<times> error option"
  RemoveDecimals :: "int \<Rightarrow> string \<Rightarrow> error + int"
  contract_Address :: string
  GetIsMonitoringEnabled :: bool
  NativeToWrapped :: "string \<Rightarrow> int64 \<Rightarrow> int64 \<Rightarrow> string"
  WrappedToNative :: "string \<Rightarrow> int64 \<Rightarrow> native_asset option"
  FungibleNativeAsset :: "int64 \<Rightarrow> string \<Rightarrow> native_asset option"
  GetOppositeAsset :: "uint64 \<Rightarrow> uint64 \<Rightarrow> string \<Rightarrow> string"
  AccountIDFromBytes :: "8 word list \<Rightarrow> error + string"
  BytesToAddress :: "8 word list \<Rightarrow> string"
  HederaNetworkId :: int64
  abi_JSON :: "error + EventIDs"
  Get_fault :: "error option"
  Create_fault :: "error option"
  Update_fault :: "error option"

subsection \<open>Status repository (Progress Store)\<close>

text \<open>
  Modelled from the spec: \<^verbatim>\<open>repository.Status\<close> is implemented outside the given sources.
  One row per watcher identity holding the last processed block; \<open>Get\<close> answers the
  stored block or not-found, \<open>Create\<close> and \<open>Update\<close> set the row of the identity
  (an explicit start block force-sets the store, overriding any prior watermark). A call
  that fails reports its fault and changes nothing.
\<close>

type_synonym status_table = "string \<rightharpoonup> int64"

definition repo_Get :: "error option \<Rightarrow> status_table \<Rightarrow> string \<Rightarrow> error + int64" where
  "repo_Get fault repo entityID =
     (case fault of
        Some e \<Rightarrow> Inl e
      | None \<Rightarrow> (case repo entityID of None \<Rightarrow> Inl ErrRecordNotFound | Some b \<Rightarrow> Inr b))"

definition repo_Create ::
  "error option \<Rightarrow> status_table \<Rightarrow> string \<Rightarrow> int64 \<Rightarrow> error option \<times> status_table" where
  "repo_Create fault repo entityID b =
     (case fault of Some e \<Rightarrow> (Some e, repo) | None \<Rightarrow> (None, repo(entityID \<mapsto> b)))"

definition repo_Update ::
  "error option \<Rightarrow> status_table \<Rightarrow> string \<Rightarrow> int64 \<Rightarrow> error option \<times> status_table" where
  "repo_Update fault repo entityID b =
     (case fault of Some e \<Rightarrow> (Some e, repo) | None \<Rightarrow> (None, repo(entityID \<mapsto> b)))"

subsection \<open>NewWatcher\<close>

text \<open>
  Modelled from the spec: \<^verbatim>\<open>helper.Max\<close> (package big-numbers) is outside the given
  sources; it is the maximum of its two arguments, which the call site fixes to
  \<^verbatim>\<open>uint64\<close> (the result is stored in the \<^verbatim>\<open>uint64\<close> field \<^verbatim>\<open>targetBlock\<close>).
\<close>

definition helper_Max :: "uint64 \<Rightarrow> uint64 \<Rightarrow> uint64" where
  "helper_Max x y = (if x < y then y else x)"

definition defaultMaxLogsBlocks :: int64 where
  "defaultMaxLogsBlocks = 500"

definition time_Second :: int64 where
  "time_Second = 1000000000"

definition defaultSleepDuration :: int64 where
  "defaultSleepDuration = 15 * time_Second"

text \<open>\<^verbatim>\<open>log.Fatalf\<close> ends the process: construction yields no watcher.\<close>

datatype 'a startup = Fatal | Started 'a

definition NewWatcher ::
  "Collaborators \<Rightarrow> status_table \<Rightarrow> string \<Rightarrow> int64 \<Rightarrow> bool \<Rightarrow> int64 \<Rightarrow> int64
     \<Rightarrow> (Watcher \<times> status_table) startup" where
  "NewWatcher env repo dbId startBlock isValidator pollingInterval maxBlocks =
     (case RetryBlockNumber env of
        Inl err \<Rightarrow> Fatal
      | Inr currentBlock \<Rightarrow>
          let targetBlock0 = helper_Max 0 (currentBlock - BlockConfirmations env) in
          (case abi_JSON env of
             Inl err \<Rightarrow> Fatal
           | Inr abi \<Rightarrow>
               let maxBlocks' = (if maxBlocks = 0 then defaultMaxLogsBlocks else maxBlocks);
                   cfg = \<lparr>topics = [ [id_Mint abi, id_Burn abi, id_Lock abi, id_Unlock abi,
                                       id_MemberUpdated abi] ],
                          addresses = [contract_Address env],
                          mintHash = id_Mint abi,
                          burnHash = id_Burn abi,
                          lockHash = id_Lock abi,
                          unlockHash = id_Unlock abi,
                          memberUpdatedHash = id_MemberUpdated abi,
                          maxLogsBlocks = maxBlocks'\<rparr>;
                   interval = (if pollingInterval = 0 then defaultSleepDuration
                               else pollingInterval * time_Second);
                   mk = (\<lambda>tb. \<lparr>dbIdentifier = dbId, targetBlock = tb, sleepDuration = interval,
                               validator = isValidator, filterConfig = cfg\<rparr>)
               in
               if startBlock = 0 then
                 (case repo_Get (Get_fault env) repo dbId of
                    Inl err \<Rightarrow>
                      if err = ErrRecordNotFound then
                        (case repo_Create (Create_fault env) repo dbId targetBlock0 of
                           (Some e, repo') \<Rightarrow> Fatal
                         | (None, repo') \<Rightarrow> Started (mk targetBlock0, repo'))
                      else Fatal
                  | Inr b \<Rightarrow> Started (mk targetBlock0, repo))
               else
                 (case repo_Update (Update_fault env) repo dbId startBlock of
                    (Some e, repo') \<Rightarrow> Fatal
                  | (None, repo') \<Rightarrow> Started (mk startBlock, repo'))))"

subsection \<open>Event handlers\<close>

text \<open>
  Each handler returns the effects it had, in order, and how it ended. Reading a field
  through a nil pointer (\<^verbatim>\<open>chain.Int64()\<close> on a nil \<^verbatim>\<open>*big.Int\<close>,
  \<^verbatim>\<open>nativeAsset.MinAmount\<close> on a nil asset) panics at that statement.
  \<open>after es r\<close> is sequencing: the effects \<open>es\<close> happen, then the rest \<open>r\<close>
  of the function body runs.
\<close>

definition after :: "effect list \<Rightarrow> effect list \<times> exit \<Rightarrow> effect list \<times> exit" where
  "after es r = (es @ fst r, snd r)"

definition handleMintLog :: "Watcher \<Rightarrow> Collaborators \<Rightarrow> RouterMint \<Rightarrow> effect list \<times> exit" where
  "handleMintLog ew env eventLog =
     after [Logged LvInfo]
      (if Removed (mt_Raw eventLog) then ([Logged LvDebug], Returned)
       else
         (case ChainID env of
            (chain, Some e) \<Rightarrow> ([Logged LvError], Returned)
          | (None, None) \<Rightarrow> ([], Panicked)
          | (Some chain, None) \<Rightarrow>
              let transactionId = mt_TransactionId eventLog;
                  sourceChainId = big_Int64 (mt_SourceChain eventLog);
                  targetChainId = big_Int64 chain;
                  oppositeToken = GetOppositeAsset env sourceChainId targetChainId (mt_Token eventLog)
              in ([Metric SetUserGetHisTokens sourceChainId targetChainId oppositeToken transactionId],
                  Returned)))"

definition handleUnlockLog :: "Watcher \<Rightarrow> Collaborators \<Rightarrow> RouterUnlock \<Rightarrow> effect list \<times> exit" where
  "handleUnlockLog ew env eventLog =
     after [Logged LvDebug]
      (if Removed (ul_Raw eventLog) then ([Logged LvError], Returned)
       else
         (case ChainID env of
            (chain, Some e) \<Rightarrow> ([Logged LvError], Returned)
          | (None, None) \<Rightarrow> ([], Panicked)
          | (Some chain, None) \<Rightarrow>
              let transactionId = ul_TransactionId eventLog;
                  sourceChainId = big_Int64 (ul_SourceChain eventLog);
                  targetChainId = big_Int64 chain;
                  oppositeToken = GetOppositeAsset env sourceChainId targetChainId (ul_Token eventLog)
              in ([Metric SetUserGetHisTokens sourceChainId targetChainId oppositeToken transactionId],
                  Returned)))"

definition handleBurnLog :: "Watcher \<Rightarrow> Collaborators \<Rightarrow> RouterBurn \<Rightarrow> effect list \<times> exit" where
  "handleBurnLog ew env eventLog =
     after [Logged LvDebug]
      (if Removed (bn_Raw eventLog) then ([Logged LvDebug], Returned)
       else if length (bn_Receiver eventLog) = 0 then ([Logged LvError], Returned)
       else
         (case ChainID env of
            (chain, Some e) \<Rightarrow> ([Logged LvError], Returned)
          | (None, None) \<Rightarrow> ([], Panicked)
          | (Some chain, None) \<Rightarrow>
              (case WrappedToNative env (bn_Token eventLog) (big_Int64 chain) of
                 None \<Rightarrow> ([Logged LvError], Returned)
               | Some nativeAsset \<Rightarrow>
                   let sourceChainId = big_Int64 chain;
                       targetChainId = big_Int64 (bn_TargetChain eventLog);
                       transactionId = TxHash (bn_Raw eventLog) @ ''-'' @ FormatUint (Index (bn_Raw eventLog));
                       token = bn_Token eventLog
                   in
                   after
                    (if GetIsMonitoringEnabled env then
                       [if targetChainId \<noteq> HederaNetworkId env
                        then Metric CreateMajorityReachedIfNotExists sourceChainId targetChainId token transactionId
                        else Metric CreateFeeTransferredIfNotExists sourceChainId targetChainId token transactionId,
                        Metric CreateUserGetHisTokensIfNotExists sourceChainId targetChainId token transactionId]
                     else [])
                    (if targetChainId \<noteq> na_ChainId nativeAsset then ([Logged LvError], Returned)
                     else
                       (case (if targetChainId = HederaNetworkId env
                              then AccountIDFromBytes env (bn_Receiver eventLog)
                              else Inr (BytesToAddress env (bn_Receiver eventLog))) of
                          Inl err \<Rightarrow> ([Logged LvError], Returned)
                        | Inr recipientAccount \<Rightarrow>
                            (case (if targetChainId = HederaNetworkId env
                                   then RemoveDecimals env (bn_Amount eventLog) token
                                   else Inr (bn_Amount eventLog)) of
                               Inl err \<Rightarrow> ([Logged LvError], Returned)
                             | Inr properAmount \<Rightarrow>
                                 if properAmount = 0 then ([Logged LvError], Returned)
                                 else if properAmount < na_MinAmount nativeAsset
                                 then ([Logged LvError], Returned)
                                 else
                                   let burnEvent =
                                         \<lparr>TransactionId = transactionId,
                                          SourceChainId = sourceChainId,
                                          TargetChainId = targetChainId,
                                          NativeChainId = na_ChainId nativeAsset,
                                          SourceAsset = token,
                                          TargetAsset = na_Asset nativeAsset,
                                          NativeAsset = na_Asset nativeAsset,
                                          Receiver = recipientAccount,
                                          Amount = big_String properAmount,
                                          Timestamp = []\<rparr>;
                                       currentBlockNumber = BlockNumber (bn_Raw eventLog)
                                   in
                                   after [Logged LvInfo]
                                    (if validator ew \<and> targetBlock ew \<le> currentBlockNumber then
                                       (if TargetChainId burnEvent = HederaNetworkId env
                                        then ([Push HederaFeeTransfer burnEvent], Returned)
                                        else ([Push TopicMessageSubmission burnEvent], Returned))
                                     else
                                       let blockTimestamp =
                                             GetBlockTimestamp env (sint (BlockNumber (bn_Raw eventLog)));
                                           burnEvent' =
                                             burnEvent\<lparr>Timestamp := FormatUint (unat blockTimestamp)\<rparr>
                                       in
                                       if TargetChainId burnEvent' = HederaNetworkId env
                                       then ([Push ReadOnlyHederaTransfer burnEvent'], Returned)
                                       else ([Push ReadOnlyTransferSave burnEvent'], Returned))))))))"

definition handleLockLog :: "Watcher \<Rightarrow> Collaborators \<Rightarrow> RouterLock \<Rightarrow> effect list \<times> exit" where
  "handleLockLog ew env eventLog =
     after [Logged LvDebug]
      (let transactionId = TxHash (lk_Raw eventLog) @ ''-'' @ FormatUint (Index (lk_Raw eventLog));
           targetChainId = big_Int64 (lk_TargetChain eventLog);
           token = lk_Token eventLog
       in
       if Removed (lk_Raw eventLog) then ([Logged LvError], Returned)
       else if length (lk_Receiver eventLog) = 0 then ([Logged LvError], Returned)
       else
         (case ChainID env of
            (None, e) \<Rightarrow> ([], Panicked)
          | (Some chain, Some e) \<Rightarrow> ([Logged LvError], Returned)
          | (Some chain, None) \<Rightarrow>
              let sourceChainId = big_Int64 chain in
              after
               ((if targetChainId \<noteq> HederaNetworkId env
                 then [Metric CreateMajorityReachedIfNotExists sourceChainId targetChainId token transactionId]
                 else []) @
                [Metric CreateUserGetHisTokensIfNotExists sourceChainId targetChainId token transactionId])
               (case (if targetChainId = HederaNetworkId env
                      then AccountIDFromBytes env (lk_Receiver eventLog)
                      else Inr (BytesToAddress env (lk_Receiver eventLog))) of
                  Inl err \<Rightarrow> ([Logged LvError], Returned)
                | Inr recipientAccount \<Rightarrow>
                    let wrappedAsset = NativeToWrapped env token sourceChainId targetChainId in
                    if wrappedAsset = [] then ([Logged LvError], Returned)
                    else
                      (case FungibleNativeAsset env sourceChainId token of
                         None \<Rightarrow> ([], Panicked)
                       | Some nativeAsset \<Rightarrow>
                           if lk_Amount eventLog < na_MinAmount nativeAsset
                           then ([Logged LvError], Returned)
                           else
                             (case (if targetChainId = HederaNetworkId env
                                    then RemoveDecimals env (lk_Amount eventLog - lk_ServiceFee eventLog) token
                                    else Inr (lk_Amount eventLog - lk_ServiceFee eventLog)) of
                                Inl err \<Rightarrow> ([Logged LvError], Returned)
                              | Inr properAmount \<Rightarrow>
                                  if properAmount = 0 then ([Logged LvError], Returned)
                                  else
                                    let tr =
                                          \<lparr>TransactionId = transactionId,
                                           SourceChainId = sourceChainId,
                                           TargetChainId = targetChainId,
                                           NativeChainId = sourceChainId,
                                           SourceAsset = token,
                                           TargetAsset = wrappedAsset,
                                           NativeAsset = token,
                                           Receiver = recipientAccount,
                                           Amount = big_String properAmount,
                                           Timestamp = []\<rparr>;
                                        currentBlockNumber = BlockNumber (lk_Raw eventLog)
                                    in
                                    after [Logged LvInfo]
                                     (if validator ew \<and> targetBlock ew \<le> currentBlockNumber then
                                        (if TargetChainId tr = HederaNetworkId env
                                         then ([Push HederaMintHtsTransfer tr], Returned)
                                         else ([Push TopicMessageSubmission tr], Returned))
                                      else
                                        let blockTimestamp =
                                              GetBlockTimestamp env (sint (BlockNumber (lk_Raw eventLog)));
                                            tr' = tr\<lparr>Timestamp := FormatUint (unat blockTimestamp)\<rparr>
                                        in
                                        if TargetChainId tr' = HederaNetworkId env
                                        then ([Push ReadOnlyHederaMintHtsTransfer tr'], Returned)
                                        else ([Push ReadOnlyTransferSave tr'], Returned)))))))"

subsection \<open>processLogs and one round of the polling loop\<close>

text \<open>
  The body of the \<^verbatim>\<open>for _, log := range logs\<close> loop: dispatch on the first topic. The
  arguments of the error line are evaluated before it is written, so a nil event beside
  the parse error panics at \<^verbatim>\<open>lock.Raw\<close>, and a nil event without an error panics at the
  handler's first line.
\<close>

definition dispatch :: "Watcher \<Rightarrow> Collaborators \<Rightarrow> Log \<Rightarrow> effect list \<times> exit" where
  "dispatch ew env log =
     (case Topics log of
        [] \<Rightarrow> ([], Returned)
      | t0 # ts \<Rightarrow>
          if t0 = lockHash (filterConfig ew) then
            (case ParseLockLog env log of
               (None, e) \<Rightarrow> ([], Panicked)
             | (Some lock, Some err) \<Rightarrow> ([Logged LvError], Returned)
             | (Some lock, None) \<Rightarrow> handleLockLog ew env lock)
          else if t0 = unlockHash (filterConfig ew) then
            (case ParseUnlockLog env log of
               (None, e) \<Rightarrow> ([], Panicked)
             | (Some unlock, Some err) \<Rightarrow> ([Logged LvError], Returned)
             | (Some unlock, None) \<Rightarrow> handleUnlockLog ew env unlock)
          else if t0 = mintHash (filterConfig ew) then
            (case ParseMintLog env log of
               (None, e) \<Rightarrow> ([], Panicked)
             | (Some mint, Some err) \<Rightarrow> ([Logged LvError], Returned)
             | (Some mint, None) \<Rightarrow> handleMintLog ew env mint)
          else if t0 = burnHash (filterConfig ew) then
            (case ParseBurnLog env log of
               (None, e) \<Rightarrow> ([], Panicked)
             | (Some burn, Some err) \<Rightarrow> ([Logged LvError], Returned)
             | (Some burn, None) \<Rightarrow> handleBurnLog ew env burn)
          else if t0 = memberUpdatedHash (filterConfig ew) then ([ReloadMembers], Returned)
          else ([], Returned))"

fun handle_logs :: "Watcher \<Rightarrow> Collaborators \<Rightarrow> Log list \<Rightarrow> effect list \<times> exit" where
  "handle_logs ew env [] = ([], Returned)"
| "handle_logs ew env (log # logs) =
     (case dispatch ew env log of
        (es, Panicked) \<Rightarrow> (es, Panicked)
      | (es, Returned) \<Rightarrow>
          (case handle_logs ew env logs of (es', x) \<Rightarrow> (es @ es', x)))"

datatype outcome = Succeeded | Failed error | Crashed

definition processLogs ::
  "Watcher \<Rightarrow> Collaborators \<Rightarrow> status_table \<Rightarrow> int64 \<Rightarrow> int64
     \<Rightarrow> effect list \<times> status_table \<times> outcome" where
  "processLogs ew env repo fromBlock endBlock =
     (case RetryFilterLogs env fromBlock endBlock of
        Inl err \<Rightarrow> ([FilterQuery fromBlock endBlock, Logged LvError], repo, Failed err)
      | Inr logs \<Rightarrow>
          (case handle_logs ew env logs of
             (es, Panicked) \<Rightarrow> (FilterQuery fromBlock endBlock # es, repo, Crashed)
           | (es, Returned) \<Rightarrow>
               let blockToBeUpdated = endBlock + 1 in
               (case repo_Update (Update_fault env) repo (dbIdentifier ew) blockToBeUpdated of
                  (Some err, repo') \<Rightarrow>
                    (FilterQuery fromBlock endBlock # es @ [Logged LvError], repo', Failed err)
                | (None, repo') \<Rightarrow> (FilterQuery fromBlock endBlock # es, repo', Succeeded))))"

text \<open>
  One round of the \<^verbatim>\<open>for\<close> loop of \<^verbatim>\<open>beginWatching\<close> (the read of the store before
  the loop only writes a log line). The comparisons are on \<^verbatim>\<open>int64\<close>, so they are
  signed; \<^verbatim>\<open>int64(currentBlock - confirmations)\<close> keeps the bits of the unsigned
  difference.
\<close>

definition watch_round ::
  "Watcher \<Rightarrow> Collaborators \<Rightarrow> status_table \<Rightarrow> effect list \<times> status_table \<times> exit" where
  "watch_round ew env repo =
     (case repo_Get (Get_fault env) repo (dbIdentifier ew) of
        Inl err \<Rightarrow> ([Logged LvError], repo, Returned)
      | Inr fromBlock \<Rightarrow>
          (case RetryBlockNumber env of
             Inl err \<Rightarrow> ([Logged LvError, Sleep], repo, Returned)
           | Inr currentBlock \<Rightarrow>
               let toBlock = currentBlock - BlockConfirmations env in
               if toBlock <s fromBlock then ([Sleep], repo, Returned)
               else
                 let toBlock' =
                       (if maxLogsBlocks (filterConfig ew) <s toBlock - fromBlock
                        then fromBlock + maxLogsBlocks (filterConfig ew) else toBlock)
                 in
                 (case processLogs ew env repo fromBlock toBlock' of
                    (es, repo', Failed err) \<Rightarrow> (es @ [Logged LvError, Sleep], repo', Returned)
                  | (es, repo', Crashed) \<Rightarrow> (es, repo', Panicked)
                  | (es, repo', Succeeded) \<Rightarrow> (es @ [Sleep], repo', Returned))))"

subsection \<open>Concrete inputs\<close>

text \<open>
  A router on chain 1 whose registry bridges the token to chain 137; the settlement
  chain has id 0 here. \<open>sample_env m\<close> configures \<open>m\<close> as the minimum amount
  of the native asset. Decimals adjustment is the identity (same precision).
\<close>

definition sample_log :: "uint64 \<Rightarrow> bool \<Rightarrow> Log" where
  "sample_log blk rm =
     \<lparr>Topics = [''lock''], TxHash = ''0xabc'', Index = 1, BlockNumber = blk, Removed = rm\<rparr>"

definition sample_lock :: "uint64 \<Rightarrow> bool \<Rightarrow> RouterLock" where
  "sample_lock blk rm =
     \<lparr>lk_Raw = sample_log blk rm, lk_TargetChain = 137, lk_Token = ''0xtoken'',
      lk_Receiver = [1, 2], lk_Amount = 1000, lk_ServiceFee = 100\<rparr>"

definition sample_burn :: "uint64 \<Rightarrow> bool \<Rightarrow> int \<Rightarrow> RouterBurn" where
  "sample_burn blk rm target =
     \<lparr>bn_Raw = sample_log blk rm, bn_TargetChain = target, bn_Token = ''0xwrapped'',
      bn_Amount = 1000, bn_Receiver = [1, 2]\<rparr>"

definition sample_mint :: "bool \<Rightarrow> RouterMint" where
  "sample_mint rm =
     \<lparr>mt_Raw = sample_log 7 rm, mt_SourceChain = 137, mt_TransactionId = ''0xdef-0'',
      mt_Token = ''0xwrapped''\<rparr>"

definition sample_unlock :: "bool \<Rightarrow> RouterUnlock" where
  "sample_unlock rm =
     \<lparr>ul_Raw = sample_log 7 rm, ul_SourceChain = 137, ul_TransactionId = ''0xdef-0'',
      ul_Token = ''0xtoken''\<rparr>"

definition sample_asset :: "int64 \<Rightarrow> int \<Rightarrow> native_asset" where
  "sample_asset c m = \<lparr>na_Asset = ''0xtoken'', na_ChainId = c, na_MinAmount = m\<rparr>"

definition sample_ids :: EventIDs where
  "sample_ids = \<lparr>id_Mint = ''mint'', id_Burn = ''burn'', id_Lock = ''lock'',
                 id_Unlock = ''unlock'', id_MemberUpdated = ''member''\<rparr>"

definition sample_env :: "int \<Rightarrow> Collaborators" where
  "sample_env m =
     \<lparr>RetryBlockNumber = Inr 100,
      BlockConfirmations = 5,
      RetryFilterLogs = (\<lambda>a b. Inr []),
      ChainID = (Some 1, None),
      GetBlockTimestamp = (\<lambda>b. 1234),
      ParseLockLog = (\<lambda>l. (Some (sample_lock (BlockNumber l) (Removed l)), None)),
      ParseUnlockLog = (\<lambda>l. (Some (sample_unlock (Removed l)), None)),
      ParseMintLog = (\<lambda>l. (Some (sample_mint (Removed l)), None)),
      ParseBurnLog = (\<lambda>l. (Some (sample_burn (BlockNumber l) (Removed l) 137), None)),
      RemoveDecimals = (\<lambda>a t. Inr a),
      contract_Address = ''0xrouter'',
      GetIsMonitoringEnabled = True,
      NativeToWrapped = (\<lambda>t s g. ''0xwrapped''),
      WrappedToNative = (\<lambda>t c. Some (sample_asset 137 m)),
      FungibleNativeAsset = (\<lambda>c t. Some (sample_asset 1 m)),
      GetOppositeAsset = (\<lambda>s t a. ''0xopposite''),
      AccountIDFromBytes = (\<lambda>b. Inr ''0.0.1234''),
      BytesToAddress = (\<lambda>b. ''0xreceiver''),
      HederaNetworkId = 0,
      abi_JSON = Inr sample_ids,
      Get_fault = None,
      Create_fault = None,
      Update_fault = None\<rparr>"

definition sample_watcher :: "bool \<Rightarrow> uint64 \<Rightarrow> Watcher" where
  "sample_watcher v tb =
     \<lparr>dbIdentifier = ''1-0xrouter'', targetBlock = tb, sleepDuration = defaultSleepDuration,
      validator = v,
      filterConfig = \<lparr>topics = [ [''mint'', ''burn'', ''lock'', ''unlock'', ''member''] ],
                      addresses = [''0xrouter''], mintHash = ''mint'', burnHash = ''burn'',
                      lockHash = ''lock'', unlockHash = ''unlock'', memberUpdatedHash = ''member'',
                      maxLogsBlocks = 500\<rparr>\<rparr>"

text \<open>
  Failed collaborator calls in the shape Go libraries return them: a nil result beside
  the error. \<open>low_head_env\<close> is a chain whose head (5) is below the confirmation
  depth (10).
\<close>

definition chainid_failing_env :: Collaborators where
  "chainid_failing_env = (sample_env 50)\<lparr>ChainID := (None, Some (ErrOther ''rpc timeout''))\<rparr>"

definition parse_failing_env :: Collaborators where
  "parse_failing_env =
     (sample_env 50)\<lparr>ParseLockLog := (\<lambda>l. (None, Some (ErrOther ''abi: cannot unpack''))),
                      RetryFilterLogs := (\<lambda>a b. Inr [sample_log 60 False])\<rparr>"

definition low_head_env :: Collaborators where
  "low_head_env = (sample_env 50)\<lparr>RetryBlockNumber := Inr 5, BlockConfirmations := 10\<rparr>"

definition filter_failing_env :: Collaborators where
  "filter_failing_env =
     (sample_env 50)\<lparr>RetryFilterLogs := (\<lambda>a b. Inl (ErrOther ''rpc timeout''))\<rparr>"

text \<open>The transfers the sample lock (live, block 60) and sample burn (backlog, block 40) produce.\<close>

definition sample_lock_transfer :: Transfer where
  "sample_lock_transfer =
     \<lparr>TransactionId = ''0xabc-1'', SourceChainId = 1, TargetChainId = 137, NativeChainId = 1,
      SourceAsset = ''0xtoken'', TargetAsset = ''0xwrapped'', NativeAsset = ''0xtoken'',
      Receiver = ''0xreceiver'', Amount = ''900'', Timestamp = []\<rparr>"

definition sample_burn_transfer :: Transfer where
  "sample_burn_transfer =
     \<lparr>TransactionId = ''0xabc-1'', SourceChainId = 1, TargetChainId = 137, NativeChainId = 137,
      SourceAsset = ''0xwrapped'', TargetAsset = ''0xtoken'', NativeAsset = ''0xtoken'',
      Receiver = ''0xreceiver'', Amount = ''1000'', Timestamp = ''1234''\<rparr>"





fun started_targetBlock :: "(Watcher \<times> status_table) startup \<Rightarrow> uint64 option" where
  "started_targetBlock Fatal = None"
| "started_targetBlock (Started (w, repo)) = Some (targetBlock w)"

fun started_watermark :: "(Watcher \<times> status_table) startup \<Rightarrow> string \<Rightarrow> int64 option" where
  "started_watermark Fatal entityID = None"
| "started_watermark (Started (w, repo)) entityID = repo entityID"

section \<open>Decimal rendering\<close>

text \<open>The rendering of a number is never empty, has no sign of its own, and reads back.\<close>

lemma lt10: "d < 10 \<Longrightarrow> d \<in> {0, 1, 2, 3, 4, 5, 6, 7, 8, 9 :: nat}"
  by auto

lemma digit_val_digit_char: "d < 10 \<Longrightarrow> digit_val (digit_char d) = d"
  by (drule lt10) (auto simp: digit_char_def digits_def digit_val_def)

lemma digit_char_not_minus: "d < 10 \<Longrightarrow> digit_char d \<noteq> CHR ''-''"
  by (drule lt10) (auto simp: digit_char_def digits_def)

lemma ParseUint_snoc: "ParseUint (s @ [c]) = 10 * ParseUint s + digit_val c"
  by (simp add: ParseUint_def)

lemma ParseUint_FormatUint: "ParseUint (FormatUint n) = n"
proof (induction n rule: FormatUint.induct)
  case (1 n)
  show ?case
  proof (cases "n < 10")
    case True
    then show ?thesis
      by (subst FormatUint.simps) (simp add: ParseUint_def digit_val_digit_char)
  next
    case False
    with 1 have "ParseUint (FormatUint (n div 10)) = n div 10" by simp
    with False show ?thesis
      by (subst FormatUint.simps) (simp add: ParseUint_snoc digit_val_digit_char)
  qed
qed

lemma FormatUint_no_minus: "CHR ''-'' \<notin> set (FormatUint n)"
proof (induction n rule: FormatUint.induct)
  case (1 n)
  show ?case
  proof (cases "n < 10")
    case True
    then show ?thesis
      using digit_char_not_minus [of n] by (subst FormatUint.simps) auto
  next
    case False
    with 1 have "CHR ''-'' \<notin> set (FormatUint (n div 10))" by simp
    with False show ?thesis
      using digit_char_not_minus [of "n mod 10"] by (subst FormatUint.simps) auto
  qed
qed

lemma FormatUint_inj: "FormatUint m = FormatUint n \<Longrightarrow> m = n"
  by (metis ParseUint_FormatUint)

lemma FormatUint_nonempty [simp]: "FormatUint n \<noteq> []" "[] \<noteq> FormatUint n"
  by (subst FormatUint.simps, simp)+

lemma big_String_inj:
  assumes "big_String a = big_String b"
  shows "a = b"
proof -
  have neg: "big_String x = CHR ''-'' # FormatUint (nat (- x))" if "x < 0" for x
    using that by (simp add: big_String_def)
  have pos: "big_String x = FormatUint (nat x)" if "\<not> x < 0" for x
    using that by (simp add: big_String_def)
  have hd_pos: "hd (FormatUint n) \<noteq> CHR ''-''" for n
    using FormatUint_no_minus [of n] FormatUint_nonempty(1) [of n] hd_in_set by metis
  show ?thesis
  proof (cases "a < 0"; cases "b < 0")
    assume "a < 0" "b < 0"
    with assms neg have "FormatUint (nat (- a)) = FormatUint (nat (- b))" by simp
    then have "nat (- a) = nat (- b)" by (rule FormatUint_inj)
    with \<open>a < 0\<close> \<open>b < 0\<close> show ?thesis by simp
  next
    assume "a < 0" "\<not> b < 0"
    with assms neg pos have "CHR ''-'' # FormatUint (nat (- a)) = FormatUint (nat b)" by simp
    then have "hd (FormatUint (nat b)) = CHR ''-''" by (metis list.sel(1))
    with hd_pos show ?thesis by blast
  next
    assume "\<not> a < 0" "b < 0"
    with assms neg pos have "FormatUint (nat a) = CHR ''-'' # FormatUint (nat (- b))" by simp
    then have "hd (FormatUint (nat a)) = CHR ''-''" by (metis list.sel(1))
    with hd_pos show ?thesis by blast
  next
    assume "\<not> a < 0" "\<not> b < 0"
    with assms pos have "FormatUint (nat a) = FormatUint (nat b)" by simp
    then have "nat a = nat b" by (rule FormatUint_inj)
    with \<open>\<not> a < 0\<close> \<open>\<not> b < 0\<close> show ?thesis by simp
  qed
qed


section \<open>Effects of the handlers and of a polling round\<close>

lemma pushes_append [simp]: "pushes (xs @ ys) = pushes xs @ pushes ys"
  by (induction xs rule: pushes.induct) simp_all

lemma metrics_append [simp]: "metrics (xs @ ys) = metrics xs @ metrics ys"
  by (induction xs rule: metrics.induct) simp_all

lemma queries_append [simp]: "queries (xs @ ys) = queries xs @ queries ys"
  by (induction xs rule: queries.induct) simp_all

lemma fst_after [simp]: "fst (after es r) = es @ fst r"
  by (simp add: after_def)

lemma snd_after [simp]: "snd (after es r) = snd r"
  by (simp add: after_def)

lemma queries_handleMintLog: "queries (fst (handleMintLog ew env ev)) = []"
  by (simp add: handleMintLog_def Let_def split: prod.splits option.splits)

lemma queries_handleUnlockLog: "queries (fst (handleUnlockLog ew env ev)) = []"
  by (simp add: handleUnlockLog_def Let_def split: prod.splits option.splits)

lemma queries_handleBurnLog: "queries (fst (handleBurnLog ew env ev)) = []"
  by (simp add: handleBurnLog_def Let_def split: prod.splits option.splits sum.splits)

lemma queries_handleLockLog: "queries (fst (handleLockLog ew env ev)) = []"
  by (simp add: handleLockLog_def Let_def split: prod.splits option.splits sum.splits)

lemma queries_dispatch: "queries (fst (dispatch ew env log)) = []"
  by (simp add: dispatch_def queries_handleMintLog queries_handleUnlockLog queries_handleBurnLog
      queries_handleLockLog split: list.splits prod.splits option.splits)

lemma queries_handle_logs: "queries (fst (handle_logs ew env logs)) = []"
proof (induction logs)
  case Nil
  show ?case by simp
next
  case (Cons log logs)
  obtain es x where d: "dispatch ew env log = (es, x)" by (cases "dispatch ew env log")
  with queries_dispatch [of ew env log] have es: "queries es = []" by simp
  obtain es' x' where h: "handle_logs ew env logs = (es', x')" by (cases "handle_logs ew env logs")
  with Cons.IH have es': "queries es' = []" by simp
  show ?case using d h es es' by (cases x) simp_all
qed

lemma queries_processLogs:
  "queries (fst (processLogs ew env repo fromBlock endBlock)) = [(fromBlock, endBlock)]"
proof (cases "RetryFilterLogs env fromBlock endBlock")
  case (Inl err)
  then show ?thesis by (simp add: processLogs_def)
next
  case (Inr logs)
  obtain es x where h: "handle_logs ew env logs = (es, x)" by (cases "handle_logs ew env logs")
  with queries_handle_logs [of ew env logs] have es: "queries es = []" by simp
  show ?thesis using Inr h es
    by (cases x) (simp_all add: processLogs_def Let_def repo_Update_def split: option.splits)
qed

lemma watch_round_queries_from:
  assumes "Get_fault env = None" and "repo (dbIdentifier ew) = Some b"
    and "q \<in> set (queries (fst (watch_round ew env repo)))"
  shows "fst q = b"
proof (cases "RetryBlockNumber env")
  case (Inl err)
  with assms show ?thesis by (simp add: watch_round_def repo_Get_def)
next
  case (Inr currentBlock)
  define toBlock where "toBlock = currentBlock - BlockConfirmations env"
  define toBlock' where "toBlock' =
    (if maxLogsBlocks (filterConfig ew) <s toBlock - b
     then b + maxLogsBlocks (filterConfig ew) else toBlock)"
  show ?thesis
  proof (cases "toBlock <s b")
    case True
    with assms Inr show ?thesis by (simp add: watch_round_def repo_Get_def toBlock_def)
  next
    case False
    obtain es repo' r where p: "processLogs ew env repo b toBlock' = (es, repo', r)"
      by (cases "processLogs ew env repo b toBlock'")
    with queries_processLogs [of ew env repo b toBlock'] have es: "queries es = [(b, toBlock')]"
      by simp
    have wr: "watch_round ew env repo =
        (case processLogs ew env repo b toBlock' of
           (es, repo', Failed err) \<Rightarrow> (es @ [Logged LvError, Sleep], repo', Returned)
         | (es, repo', Crashed) \<Rightarrow> (es, repo', Panicked)
         | (es, repo', Succeeded) \<Rightarrow> (es @ [Sleep], repo', Returned))"
      using assms(1,2) Inr False
      by (simp add: watch_round_def repo_Get_def toBlock_def toBlock'_def Let_def)
    have "queries (fst (watch_round ew env repo)) = queries es"
      unfolding wr p by (cases r) simp_all
    with es assms(3) show ?thesis by simp
  qed
qed

lemma processLogs_Succeeded_repo:
  assumes "processLogs ew env repo fromBlock endBlock = (es, repo', Succeeded)"
  shows "repo' = repo(dbIdentifier ew \<mapsto> endBlock + 1)"
proof (cases "RetryFilterLogs env fromBlock endBlock")
  case (Inl err)
  with assms show ?thesis by (simp add: processLogs_def)
next
  case (Inr logs)
  obtain es0 x where h: "handle_logs ew env logs = (es0, x)" by (cases "handle_logs ew env logs")
  show ?thesis using assms Inr h
    by (cases x; cases "Update_fault env") (simp_all add: processLogs_def Let_def repo_Update_def)
qed

lemma processLogs_succeeds:
  assumes "RetryFilterLogs env fromBlock endBlock = Inr logs"
    and "snd (handle_logs ew env logs) = Returned" and "Update_fault env = None"
  shows "snd (snd (processLogs ew env repo fromBlock endBlock)) = Succeeded"
proof -
  obtain es0 where h: "handle_logs ew env logs = (es0, Returned)"
    using assms(2) by (cases "handle_logs ew env logs") simp
  with assms show ?thesis by (simp add: processLogs_def Let_def repo_Update_def)
qed

lemma processLogs_fetch_fails:
  assumes "RetryFilterLogs env fromBlock endBlock = Inl err"
  shows "processLogs ew env repo fromBlock endBlock
           = ([FilterQuery fromBlock endBlock, Logged LvError], repo, Failed err)"
  using assms by (simp add: processLogs_def)

lemma watch_round_fetch_fails:
  assumes "\<forall>a b. RetryFilterLogs env a b = Inl err"
  shows "fst (snd (watch_round ew env repo)) = repo"
  using assms
  by (simp add: watch_round_def processLogs_def Let_def split: sum.splits)

lemma sint_succ_int64:
  fixes b :: int64
  assumes "sint b < 2 ^ 63 - 1"
  shows "sint (b + 1) = sint b + 1"
proof -
  have lo: "- (2 ^ 63) \<le> sint b" using sint_ge [of b] by simp
  have "sint (b + 1) = signed_take_bit 63 (sint b + 1)"
    by (simp add: sint_word_add)
  also have "\<dots> = sint b + 1"
    using lo assms by (intro signed_take_bit_int_eq_self) simp_all
  finally show ?thesis .
qed

lemma handleBurnLog_push:
  assumes "(t, tr) \<in> set (pushes (fst (handleBurnLog ew env ev)))"
  shows "\<exists>chain na a.
     ChainID env = (Some chain, None) \<and>
     WrappedToNative env (bn_Token ev) (big_Int64 chain) = Some na \<and>
     big_Int64 (bn_TargetChain ev) = na_ChainId na \<and>
     (if big_Int64 (bn_TargetChain ev) = HederaNetworkId env
      then RemoveDecimals env (bn_Amount ev) (bn_Token ev) else Inr (bn_Amount ev)) = Inr a \<and>
     a \<noteq> 0 \<and> na_MinAmount na \<le> a \<and>
     Amount tr = big_String a \<and>
     TargetChainId tr = big_Int64 (bn_TargetChain ev) \<and>
     (if validator ew \<and> targetBlock ew \<le> BlockNumber (bn_Raw ev)
      then Timestamp tr = [] \<and>
           t = (if TargetChainId tr = HederaNetworkId env then HederaFeeTransfer
                else TopicMessageSubmission)
      else Timestamp tr = FormatUint (unat (GetBlockTimestamp env (sint (BlockNumber (bn_Raw ev))))) \<and>
           t = (if TargetChainId tr = HederaNetworkId env then ReadOnlyHederaTransfer
                else ReadOnlyTransferSave))"
  using assms
  by (auto simp: handleBurnLog_def Let_def split: prod.splits option.splits sum.splits if_splits)


lemma handleLockLog_push:
  assumes "(t, tr) \<in> set (pushes (fst (handleLockLog ew env ev)))"
  shows "\<exists>chain na a.
     ChainID env = (Some chain, None) \<and>
     FungibleNativeAsset env (big_Int64 chain) (lk_Token ev) = Some na \<and>
     na_MinAmount na \<le> lk_Amount ev \<and>
     (if big_Int64 (lk_TargetChain ev) = HederaNetworkId env
      then RemoveDecimals env (lk_Amount ev - lk_ServiceFee ev) (lk_Token ev)
      else Inr (lk_Amount ev - lk_ServiceFee ev)) = Inr a \<and>
     a \<noteq> 0 \<and>
     Amount tr = big_String a \<and>
     TargetChainId tr = big_Int64 (lk_TargetChain ev) \<and>
     (if validator ew \<and> targetBlock ew \<le> BlockNumber (lk_Raw ev)
      then Timestamp tr = [] \<and>
           t = (if TargetChainId tr = HederaNetworkId env then HederaMintHtsTransfer
                else TopicMessageSubmission)
      else Timestamp tr = FormatUint (unat (GetBlockTimestamp env (sint (BlockNumber (lk_Raw ev))))) \<and>
           t = (if TargetChainId tr = HederaNetworkId env then ReadOnlyHederaMintHtsTransfer
                else ReadOnlyTransferSave))"
  using assms
  by (auto simp: handleLockLog_def Let_def split: prod.splits option.splits sum.splits if_splits)







section \<open>Event watcher: watermark and starting block\<close>

text \<open>
  C1: in \<^verbatim>\<open>processLogs\<close> over the inclusive range \<open>[fromBlock, endBlock]\<close>, when the
  log fetch, the handling of every log and the final store update complete without error,
  the stored watermark of the watcher's identity is exactly \<open>endBlock + 1\<close> (the
  \<^verbatim>\<open>int64\<close> sum, which is the integer \<open>endBlock + 1\<close> for every block below the
  largest \<^verbatim>\<open>int64\<close>), the next read of the store returns it, and every log query of the
  next polling round starts at that block. Success is reached whenever the fetch answers,
  no handler panics and the store accepts the update. When the log fetch fails, nothing
  but the query and an error line happens and the store is unchanged; a polling round
  whose fetch fails leaves the store as it was, so the next round reads the same
  \<open>fromBlock\<close> again.
\<close>

theorem C1_watermark_advance:
  "(processLogs ew env repo fromBlock endBlock = (es, repo', Succeeded) \<longrightarrow>
      repo' = repo(dbIdentifier ew \<mapsto> endBlock + 1) \<and>
      repo_Get None repo' (dbIdentifier ew) = Inr (endBlock + 1) \<and>
      (\<forall>env' q. Get_fault env' = None \<longrightarrow>
          q \<in> set (queries (fst (watch_round ew env' repo'))) \<longrightarrow> fst q = endBlock + 1) \<and>
      (sint endBlock < 2 ^ 63 - 1 \<longrightarrow> sint (endBlock + 1) = sint endBlock + 1)) \<and>
   (RetryFilterLogs env fromBlock endBlock = Inr logs \<and>
    snd (handle_logs ew env logs) = Returned \<and> Update_fault env = None \<longrightarrow>
      snd (snd (processLogs ew env repo fromBlock endBlock)) = Succeeded) \<and>
   (RetryFilterLogs env fromBlock endBlock = Inl err \<longrightarrow>
      processLogs ew env repo fromBlock endBlock
        = ([FilterQuery fromBlock endBlock, Logged LvError], repo, Failed err)) \<and>
   ((\<forall>a b. RetryFilterLogs env a b = Inl err) \<longrightarrow>
      fst (snd (watch_round ew env repo)) = repo)"
proof (intro conjI impI)
  assume s: "processLogs ew env repo fromBlock endBlock = (es, repo', Succeeded)"
  from processLogs_Succeeded_repo [OF s]
  show r: "repo' = repo(dbIdentifier ew \<mapsto> endBlock + 1)" .
  then show "repo_Get None repo' (dbIdentifier ew) = Inr (endBlock + 1)"
    by (simp add: repo_Get_def)
  from r have "repo' (dbIdentifier ew) = Some (endBlock + 1)" by simp
  then show "\<forall>env' q. Get_fault env' = None \<longrightarrow>
          q \<in> set (queries (fst (watch_round ew env' repo'))) \<longrightarrow> fst q = endBlock + 1"
    using watch_round_queries_from [of _ repo' ew "endBlock + 1"] by blast
next
  assume "sint endBlock < 2 ^ 63 - 1"
  then show "sint (endBlock + 1) = sint endBlock + 1" by (rule sint_succ_int64)
next
  assume "RetryFilterLogs env fromBlock endBlock = Inr logs \<and>
    snd (handle_logs ew env logs) = Returned \<and> Update_fault env = None"
  then show "snd (snd (processLogs ew env repo fromBlock endBlock)) = Succeeded"
    using processLogs_succeeds by blast
next
  assume "RetryFilterLogs env fromBlock endBlock = Inl err"
  then show "processLogs ew env repo fromBlock endBlock
        = ([FilterQuery fromBlock endBlock, Logged LvError], repo, Failed err)"
    by (rule processLogs_fetch_fails)
next
  assume "\<forall>a b. RetryFilterLogs env a b = Inl err"
  then show "fst (snd (watch_round ew env repo)) = repo"
    by (rule watch_round_fetch_fails)
qed

theorem C1_watermark_advance_witness:
  "processLogs (sample_watcher True 50) (sample_env 50) [''1-0xrouter'' \<mapsto> 60] 60 70
     = ([FilterQuery 60 70], [''1-0xrouter'' \<mapsto> 71], Succeeded) \<and>
   repo_Get None [''1-0xrouter'' \<mapsto> 71] (dbIdentifier (sample_watcher True 50)) = Inr (70 + 1) \<and>
   sint (70 + 1 :: int64) = sint (70 :: int64) + 1 \<and>
   processLogs (sample_watcher True 50) filter_failing_env [''1-0xrouter'' \<mapsto> 60] 60 70
     = ([FilterQuery 60 70, Logged LvError], [''1-0xrouter'' \<mapsto> 60], Failed (ErrOther ''rpc timeout'')) \<and>
   fst (snd (watch_round (sample_watcher True 50) filter_failing_env [''1-0xrouter'' \<mapsto> 60]))
     = [''1-0xrouter'' \<mapsto> 60]"
proof -
  have s: "processLogs (sample_watcher True 50) (sample_env 50) [''1-0xrouter'' \<mapsto> 60] 60 70
     = ([FilterQuery 60 70], [''1-0xrouter'' \<mapsto> 71], Succeeded)"
    by (simp add: processLogs_def sample_env_def sample_watcher_def repo_Update_def Let_def)
  have b: "sint (70 :: int64) < 2 ^ 63 - 1" by simp
  have f: "RetryFilterLogs filter_failing_env 60 70 = Inl (ErrOther ''rpc timeout'')"
    by (simp add: filter_failing_env_def sample_env_def)
  note t = C1_watermark_advance [of "sample_watcher True 50" _ "[''1-0xrouter'' \<mapsto> 60]" 60 70]
  from s t [of "sample_env 50" "[FilterQuery 60 70]" "[''1-0xrouter'' \<mapsto> 71]"]
  have g: "repo_Get None [''1-0xrouter'' \<mapsto> 71] (dbIdentifier (sample_watcher True 50)) = Inr (70 + 1)"
    by blast
  from s b t [of "sample_env 50" "[FilterQuery 60 70]" "[''1-0xrouter'' \<mapsto> 71]"]
  have h: "sint (70 + 1 :: int64) = sint (70 :: int64) + 1"
    by blast
  from f t [of filter_failing_env _ _ _ "ErrOther ''rpc timeout''"]
  have k: "processLogs (sample_watcher True 50) filter_failing_env [''1-0xrouter'' \<mapsto> 60] 60 70
     = ([FilterQuery 60 70, Logged LvError], [''1-0xrouter'' \<mapsto> 60], Failed (ErrOther ''rpc timeout''))"
    by blast
  have fa: "\<forall>a b. RetryFilterLogs filter_failing_env a b = Inl (ErrOther ''rpc timeout'')"
    by (simp add: filter_failing_env_def sample_env_def)
  from fa t [of filter_failing_env _ _ _ "ErrOther ''rpc timeout''"]
  have r: "fst (snd (watch_round (sample_watcher True 50) filter_failing_env [''1-0xrouter'' \<mapsto> 60]))
     = [''1-0xrouter'' \<mapsto> 60]"
    by blast
  from s g h k r show ?thesis by blast
qed

text \<open>
  C5: when construction does not end fatally on the head or the ABI,
  (a) a start block other than 0 is written to the store for the identity, over any
  prior watermark, and becomes the watcher's target block;
  (b) with start block 0 and no row for the identity, a row is created at the computed
  target block, which is the watcher's target block;
  (c) with start block 0 and an existing row, the store is returned untouched, and every
  log query of a polling round of the new watcher on that store starts at the stored
  block, whatever the current head is.
\<close>

theorem C5_starting_block_policy:
  assumes "RetryBlockNumber env = Inr currentBlock" and "abi_JSON env = Inr abi"
  shows
   "(startBlock \<noteq> 0 \<and> Update_fault env = None \<longrightarrow>
       (\<exists>w. NewWatcher env repo dbId startBlock v pollingInterval maxBlocks
               = Started (w, repo(dbId \<mapsto> startBlock)) \<and>
            targetBlock w = startBlock \<and> dbIdentifier w = dbId)) \<and>
    (startBlock = 0 \<and> Get_fault env = None \<and> repo dbId = None \<and> Create_fault env = None \<longrightarrow>
       (\<exists>w. NewWatcher env repo dbId startBlock v pollingInterval maxBlocks
               = Started (w, repo(dbId \<mapsto> helper_Max 0 (currentBlock - BlockConfirmations env))) \<and>
            targetBlock w = helper_Max 0 (currentBlock - BlockConfirmations env) \<and>
            dbIdentifier w = dbId)) \<and>
    (startBlock = 0 \<and> Get_fault env = None \<and> repo dbId = Some b \<longrightarrow>
       (\<exists>w. NewWatcher env repo dbId startBlock v pollingInterval maxBlocks = Started (w, repo) \<and>
            dbIdentifier w = dbId \<and>
            (\<forall>env' q. Get_fault env' = None \<longrightarrow>
                q \<in> set (queries (fst (watch_round w env' repo))) \<longrightarrow> fst q = b)))"
proof (intro conjI impI)
  assume "startBlock \<noteq> 0 \<and> Update_fault env = None"
  with assms show "\<exists>w. NewWatcher env repo dbId startBlock v pollingInterval maxBlocks
               = Started (w, repo(dbId \<mapsto> startBlock)) \<and>
            targetBlock w = startBlock \<and> dbIdentifier w = dbId"
    by (simp add: NewWatcher_def Let_def repo_Update_def)
next
  assume "startBlock = 0 \<and> Get_fault env = None \<and> repo dbId = None \<and> Create_fault env = None"
  with assms show "\<exists>w. NewWatcher env repo dbId startBlock v pollingInterval maxBlocks
               = Started (w, repo(dbId \<mapsto> helper_Max 0 (currentBlock - BlockConfirmations env))) \<and>
            targetBlock w = helper_Max 0 (currentBlock - BlockConfirmations env) \<and>
            dbIdentifier w = dbId"
    by (simp add: NewWatcher_def Let_def repo_Get_def repo_Create_def)
next
  assume c: "startBlock = 0 \<and> Get_fault env = None \<and> repo dbId = Some b"
  with assms obtain w where
    w: "NewWatcher env repo dbId startBlock v pollingInterval maxBlocks = Started (w, repo)"
      "dbIdentifier w = dbId"
    by (simp add: NewWatcher_def Let_def repo_Get_def)
  from c w(2) have "\<forall>env' q. Get_fault env' = None \<longrightarrow>
      q \<in> set (queries (fst (watch_round w env' repo))) \<longrightarrow> fst q = b"
    using watch_round_queries_from [of _ repo w b] by blast
  with w show "\<exists>w. NewWatcher env repo dbId startBlock v pollingInterval maxBlocks = Started (w, repo) \<and>
            dbIdentifier w = dbId \<and>
            (\<forall>env' q. Get_fault env' = None \<longrightarrow>
                q \<in> set (queries (fst (watch_round w env' repo))) \<longrightarrow> fst q = b)"
    by blast
qed

theorem C5_starting_block_policy_witness:
  "started_watermark (NewWatcher (sample_env 50) [''1-0xrouter'' \<mapsto> 7] ''1-0xrouter'' 42 True 0 0)
      ''1-0xrouter'' = Some 42 \<and>
   started_targetBlock (NewWatcher (sample_env 50) [''1-0xrouter'' \<mapsto> 7] ''1-0xrouter'' 42 True 0 0)
      = Some 42 \<and>
   started_watermark (NewWatcher (sample_env 50) Map.empty ''1-0xrouter'' 0 True 0 0)
      ''1-0xrouter'' = Some (helper_Max 0 (100 - 5)) \<and>
   started_watermark (NewWatcher (sample_env 50) [''1-0xrouter'' \<mapsto> 7] ''1-0xrouter'' 0 True 0 0)
      ''1-0xrouter'' = Some 7"
proof -
  have e: "RetryBlockNumber (sample_env 50) = Inr 100" "abi_JSON (sample_env 50) = Inr sample_ids"
    "Update_fault (sample_env 50) = None" "Get_fault (sample_env 50) = None"
    "Create_fault (sample_env 50) = None" "BlockConfirmations (sample_env 50) = 5"
    by (simp_all add: sample_env_def)
  have a: "(42 :: int64) \<noteq> 0 \<and> Update_fault (sample_env 50) = None"
    using e by simp
  have b: "(0 :: int64) = 0 \<and> Get_fault (sample_env 50) = None \<and>
      (Map.empty :: status_table) ''1-0xrouter'' = None \<and> Create_fault (sample_env 50) = None"
    using e by simp
  have c: "(0 :: int64) = 0 \<and> Get_fault (sample_env 50) = None \<and>
      [''1-0xrouter'' \<mapsto> (7 :: int64)] ''1-0xrouter'' = Some 7"
    using e by simp
  from a C5_starting_block_policy [OF e(1,2), where startBlock = 42 and repo = "[''1-0xrouter'' \<mapsto> 7]"
      and dbId = "''1-0xrouter''" and v = True and pollingInterval = 0 and maxBlocks = 0]
  obtain w1 where w1: "NewWatcher (sample_env 50) [''1-0xrouter'' \<mapsto> 7] ''1-0xrouter'' 42 True 0 0
       = Started (w1, [''1-0xrouter'' \<mapsto> 7](''1-0xrouter'' \<mapsto> 42))" "targetBlock w1 = 42"
    by blast
  from b C5_starting_block_policy [OF e(1,2), where startBlock = 0 and repo = Map.empty
      and dbId = "''1-0xrouter''" and v = True and pollingInterval = 0 and maxBlocks = 0]
  obtain w2 where w2: "NewWatcher (sample_env 50) Map.empty ''1-0xrouter'' 0 True 0 0
       = Started (w2, [''1-0xrouter'' \<mapsto> helper_Max 0 (100 - BlockConfirmations (sample_env 50))])"
    by blast
  from c C5_starting_block_policy [OF e(1,2), where startBlock = 0 and repo = "[''1-0xrouter'' \<mapsto> 7]"
      and dbId = "''1-0xrouter''" and b = 7 and v = True and pollingInterval = 0 and maxBlocks = 0]
  obtain w3 where w3: "NewWatcher (sample_env 50) [''1-0xrouter'' \<mapsto> 7] ''1-0xrouter'' 0 True 0 0
       = Started (w3, [''1-0xrouter'' \<mapsto> 7])"
    by blast
  show ?thesis unfolding w1 w2 w3 using w1(2) e(6) by simp
qed

text \<open>
  C9 (evaluation at head 5, confirmation depth 10): the claim asks for the target block
  \<open>max(0, 5 - 10) = 0\<close>. \<^verbatim>\<open>NewWatcher\<close> subtracts in \<^verbatim>\<open>uint64\<close> before taking the
  maximum with 0, so the difference has already wrapped: the target block is
  \<open>2^64 - 5\<close>, and the watermark row created from it is \<open>-5\<close> as \<^verbatim>\<open>int64\<close>.
\<close>

theorem C9_target_block_wraps:
  "RetryBlockNumber low_head_env = Inr 5 \<and> BlockConfirmations low_head_env = 10 \<and>
   started_targetBlock (NewWatcher low_head_env Map.empty ''1-0xrouter'' 0 True 0 0)
     = Some 18446744073709551611 \<and>
   started_watermark (NewWatcher low_head_env Map.empty ''1-0xrouter'' 0 True 0 0) ''1-0xrouter''
     = Some (- 5)"
  by code_simp

section \<open>Transfer classifier\<close>

text \<open>
  C2 (as stated): a Lock event with amount 1000, service fee 100, same precision and a
  configured minimum of 1000 would be dropped. The handler compares the event's
  amount (1000), not the amount after the fee (900), with the minimum: the event passes
  and a Transfer of 900 is pushed.
\<close>

theorem C2_minimum_1000_not_dropped:
  "lk_Amount (sample_lock 60 False) = 1000 \<and> lk_ServiceFee (sample_lock 60 False) = 100 \<and>
   FungibleNativeAsset (sample_env 1000) 1 ''0xtoken'' = Some (sample_asset 1 1000) \<and>
   na_MinAmount (sample_asset 1 1000) = 1000 \<and>
   pushes (fst (handleLockLog (sample_watcher True 50) (sample_env 1000) (sample_lock 60 False)))
     = [(TopicMessageSubmission, sample_lock_transfer)] \<and>
   Amount sample_lock_transfer = ''900''"
  by code_simp

text \<open>
  C2 (amended): for every Lock event that reaches the amount checks (not removed, a
  receiver, chain id, recipient, wrapped asset and native asset resolved) the handler
  computes \<open>properAmount = amount - serviceFee\<close>, adjusted by \<^verbatim>\<open>RemoveDecimals\<close> when
  the target is the Hedera chain, returns normally, and pushes nothing exactly when the
  event's amount before the fee is below the asset's configured minimum or the adjusted
  amount is zero; otherwise it pushes one Transfer whose amount is the rendered adjusted
  amount. For amount 1000, fee 100, same precision: minimum 50 gives a Transfer of 900,
  minimum 1001 drops the event.
\<close>

theorem C2_lock_amount_checks:
  assumes "\<not> Removed (lk_Raw l)" and "lk_Receiver l \<noteq> []"
    and "ChainID env = (Some chain, None)"
    and "(if big_Int64 (lk_TargetChain l) = HederaNetworkId env
          then AccountIDFromBytes env (lk_Receiver l)
          else Inr (BytesToAddress env (lk_Receiver l))) = Inr recipientAccount"
    and "NativeToWrapped env (lk_Token l) (big_Int64 chain) (big_Int64 (lk_TargetChain l)) \<noteq> []"
    and "FungibleNativeAsset env (big_Int64 chain) (lk_Token l) = Some nativeAsset"
    and "(if big_Int64 (lk_TargetChain l) = HederaNetworkId env
          then RemoveDecimals env (lk_Amount l - lk_ServiceFee l) (lk_Token l)
          else Inr (lk_Amount l - lk_ServiceFee l)) = Inr properAmount"
  shows "snd (handleLockLog ew env l) = Returned \<and>
         pushed_amounts (fst (handleLockLog ew env l))
           = (if lk_Amount l < na_MinAmount nativeAsset \<or> properAmount = 0 then []
              else [big_String properAmount])"
proof (cases "big_Int64 (lk_TargetChain l) = HederaNetworkId env")
  case True
  with assms show ?thesis
    by (simp add: handleLockLog_def pushed_amounts_def Let_def)
next
  case False
  with assms show ?thesis
    by (simp add: handleLockLog_def pushed_amounts_def Let_def)
qed

theorem C2_lock_amount_checks_witness:
  "pushed_amounts (fst (handleLockLog (sample_watcher True 50) (sample_env 50) (sample_lock 60 False)))
     = [''900''] \<and>
   pushed_amounts (fst (handleLockLog (sample_watcher True 50) (sample_env 1001) (sample_lock 60 False)))
     = []"
proof -
  have a: "\<not> Removed (lk_Raw (sample_lock 60 False))" "lk_Receiver (sample_lock 60 False) \<noteq> []"
    by (simp_all add: sample_lock_def sample_log_def)
  have c: "ChainID (sample_env m) = (Some 1, None)" for m
    by (simp add: sample_env_def)
  have d: "(if big_Int64 (lk_TargetChain (sample_lock 60 False)) = HederaNetworkId (sample_env m)
          then AccountIDFromBytes (sample_env m) (lk_Receiver (sample_lock 60 False))
          else Inr (BytesToAddress (sample_env m) (lk_Receiver (sample_lock 60 False)))) = Inr ''0xreceiver''" for m
    by (simp add: sample_env_def sample_lock_def big_Int64_def)
  have e: "NativeToWrapped (sample_env m) (lk_Token (sample_lock 60 False)) (big_Int64 1)
       (big_Int64 (lk_TargetChain (sample_lock 60 False))) \<noteq> []" for m
    by (simp add: sample_env_def)
  have f: "FungibleNativeAsset (sample_env m) (big_Int64 1) (lk_Token (sample_lock 60 False))
       = Some (sample_asset 1 m)" for m
    by (simp add: sample_env_def)
  have g: "(if big_Int64 (lk_TargetChain (sample_lock 60 False)) = HederaNetworkId (sample_env m)
          then RemoveDecimals (sample_env m) (lk_Amount (sample_lock 60 False) - lk_ServiceFee (sample_lock 60 False))
                 (lk_Token (sample_lock 60 False))
          else Inr (lk_Amount (sample_lock 60 False) - lk_ServiceFee (sample_lock 60 False))) = Inr 900" for m
    by (simp add: sample_env_def sample_lock_def big_Int64_def)
  have s: "big_String 900 = ''900''" by code_simp
  from C2_lock_amount_checks [OF a c [of 50] d [of 50] e [of 50] f [of 50] g [of 50],
      where ew = "sample_watcher True 50"]
  have p: "pushed_amounts (fst (handleLockLog (sample_watcher True 50) (sample_env 50) (sample_lock 60 False)))
     = [''900'']"
    by (simp add: sample_lock_def sample_asset_def s)
  from C2_lock_amount_checks [OF a c [of 1001] d [of 1001] e [of 1001] f [of 1001] g [of 1001],
      where ew = "sample_watcher True 50"]
  have q: "pushed_amounts (fst (handleLockLog (sample_watcher True 50) (sample_env 1001) (sample_lock 60 False)))
     = []"
    by (simp add: sample_lock_def sample_asset_def)
  from p q show ?thesis by blast
qed




text \<open>
  C6 (as stated): every pushed Transfer would have an amount at least the configured
  minimum. A Lock event with amount 1000 and service fee 100 under a minimum of 950
  passes the check on the event's amount and is pushed with amount 900.
\<close>

theorem C6_min_950_pushes_900:
  "pushed_amounts (fst (handleLockLog (sample_watcher True 50) (sample_env 950) (sample_lock 60 False)))
     = [big_String 900] \<and>
   FungibleNativeAsset (sample_env 950) 1 ''0xtoken'' = Some (sample_asset 1 950) \<and>
   (900 :: int) < na_MinAmount (sample_asset 1 950)"
  by code_simp

text \<open>
  C6 (amended): every Transfer pushed by the Burn handler has a non-zero amount that is
  at least the configured minimum of the resolved native asset, hence strictly positive
  when that minimum is not negative. Every Transfer pushed by the Lock handler has a
  non-zero amount and comes from an event whose amount before the service fee is at
  least the configured minimum of the native asset.
\<close>

theorem C6_pushed_amount_bounds:
  "((t, tr) \<in> set (pushes (fst (handleBurnLog ew env b))) \<longrightarrow>
      (\<exists>chain na a.
         ChainID env = (Some chain, None) \<and>
         WrappedToNative env (bn_Token b) (big_Int64 chain) = Some na \<and>
         Amount tr = big_String a \<and> a \<noteq> 0 \<and> na_MinAmount na \<le> a \<and>
         (0 \<le> na_MinAmount na \<longrightarrow> 0 < a))) \<and>
   ((t', tr') \<in> set (pushes (fst (handleLockLog ew env l))) \<longrightarrow>
      (\<exists>chain na a.
         ChainID env = (Some chain, None) \<and>
         FungibleNativeAsset env (big_Int64 chain) (lk_Token l) = Some na \<and>
         Amount tr' = big_String a \<and> a \<noteq> 0 \<and> na_MinAmount na \<le> lk_Amount l))"
proof (intro conjI impI)
  assume "(t, tr) \<in> set (pushes (fst (handleBurnLog ew env b)))"
  from handleBurnLog_push [OF this] obtain chain na a where
    "ChainID env = (Some chain, None)"
    "WrappedToNative env (bn_Token b) (big_Int64 chain) = Some na"
    "Amount tr = big_String a" "a \<noteq> 0" "na_MinAmount na \<le> a"
    by blast
  moreover from this have "0 \<le> na_MinAmount na \<longrightarrow> 0 < a" by simp
  ultimately show "\<exists>chain na a.
         ChainID env = (Some chain, None) \<and>
         WrappedToNative env (bn_Token b) (big_Int64 chain) = Some na \<and>
         Amount tr = big_String a \<and> a \<noteq> 0 \<and> na_MinAmount na \<le> a \<and>
         (0 \<le> na_MinAmount na \<longrightarrow> 0 < a)"
    by blast
next
  assume "(t', tr') \<in> set (pushes (fst (handleLockLog ew env l)))"
  from handleLockLog_push [OF this] show "\<exists>chain na a.
         ChainID env = (Some chain, None) \<and>
         FungibleNativeAsset env (big_Int64 chain) (lk_Token l) = Some na \<and>
         Amount tr' = big_String a \<and> a \<noteq> 0 \<and> na_MinAmount na \<le> lk_Amount l"
    by blast
qed

theorem C6_pushed_amount_bounds_witness:
  "(ReadOnlyTransferSave, sample_burn_transfer)
     \<in> set (pushes (fst (handleBurnLog (sample_watcher True 50) (sample_env 50) (sample_burn 40 False 137)))) \<and>
   (TopicMessageSubmission, sample_lock_transfer)
     \<in> set (pushes (fst (handleLockLog (sample_watcher True 50) (sample_env 50) (sample_lock 60 False)))) \<and>
   (\<exists>chain na a. ChainID (sample_env 50) = (Some chain, None) \<and>
      WrappedToNative (sample_env 50) (bn_Token (sample_burn 40 False 137)) (big_Int64 chain) = Some na \<and>
      Amount sample_burn_transfer = big_String a \<and> a \<noteq> 0 \<and> na_MinAmount na \<le> a \<and>
      (0 \<le> na_MinAmount na \<longrightarrow> 0 < a)) \<and>
   (\<exists>chain na a. ChainID (sample_env 50) = (Some chain, None) \<and>
      FungibleNativeAsset (sample_env 50) (big_Int64 chain) (lk_Token (sample_lock 60 False)) = Some na \<and>
      Amount sample_lock_transfer = big_String a \<and> a \<noteq> 0 \<and>
      na_MinAmount na \<le> lk_Amount (sample_lock 60 False))"
proof -
  have a: "(ReadOnlyTransferSave, sample_burn_transfer)
     \<in> set (pushes (fst (handleBurnLog (sample_watcher True 50) (sample_env 50) (sample_burn 40 False 137))))"
    by code_simp
  have b: "(TopicMessageSubmission, sample_lock_transfer)
     \<in> set (pushes (fst (handleLockLog (sample_watcher True 50) (sample_env 50) (sample_lock 60 False))))"
    by code_simp
  from a b C6_pushed_amount_bounds [of ReadOnlyTransferSave sample_burn_transfer "sample_watcher True 50"
      "sample_env 50" "sample_burn 40 False 137" TopicMessageSubmission sample_lock_transfer
      "sample_lock 60 False"]
  show ?thesis by blast
qed




text \<open>
  C8 (evaluation at two failed calls): the claim asks that the error branches never
  dereference an invalid value. When \<^verbatim>\<open>ChainID\<close> fails with a nil result,
  \<^verbatim>\<open>handleLockLog\<close> calls \<^verbatim>\<open>chain.Int64()\<close> before it looks at the error and panics,
  where \<^verbatim>\<open>handleBurnLog\<close> checks the error first and returns. When \<^verbatim>\<open>ParseLockLog\<close>
  fails with a nil event, the error line of \<^verbatim>\<open>processLogs\<close> reads \<^verbatim>\<open>lock.Raw\<close> and
  panics, which ends the whole batch.
\<close>

theorem C8_error_paths_panic:
  "ChainID chainid_failing_env = (None, Some (ErrOther ''rpc timeout'')) \<and>
   handleLockLog (sample_watcher True 50) chainid_failing_env (sample_lock 60 False)
     = ([Logged LvDebug], Panicked) \<and>
   snd (handleBurnLog (sample_watcher True 50) chainid_failing_env (sample_burn 60 False 137)) = Returned \<and>
   ParseLockLog parse_failing_env (sample_log 60 False) = (None, Some (ErrOther ''abi: cannot unpack'')) \<and>
   dispatch (sample_watcher True 50) parse_failing_env (sample_log 60 False) = ([], Panicked) \<and>
   snd (snd (processLogs (sample_watcher True 50) parse_failing_env Map.empty 60 60)) = Crashed"
  by code_simp

text \<open>
  C10: for a log whose removed flag is set, each of the four handlers returns after its
  log lines only: nothing is pushed and no metrics call is made.
\<close>

theorem C10_removed_log_no_side_effect:
  "(Removed (mt_Raw m) \<longrightarrow>
      handleMintLog ew env m = ([Logged LvInfo, Logged LvDebug], Returned) \<and>
      pushes (fst (handleMintLog ew env m)) = [] \<and> metrics (fst (handleMintLog ew env m)) = []) \<and>
   (Removed (bn_Raw b) \<longrightarrow>
      handleBurnLog ew env b = ([Logged LvDebug, Logged LvDebug], Returned) \<and>
      pushes (fst (handleBurnLog ew env b)) = [] \<and> metrics (fst (handleBurnLog ew env b)) = []) \<and>
   (Removed (lk_Raw l) \<longrightarrow>
      handleLockLog ew env l = ([Logged LvDebug, Logged LvError], Returned) \<and>
      pushes (fst (handleLockLog ew env l)) = [] \<and> metrics (fst (handleLockLog ew env l)) = []) \<and>
   (Removed (ul_Raw u) \<longrightarrow>
      handleUnlockLog ew env u = ([Logged LvDebug, Logged LvError], Returned) \<and>
      pushes (fst (handleUnlockLog ew env u)) = [] \<and> metrics (fst (handleUnlockLog ew env u)) = [])"
  by (simp add: handleMintLog_def handleBurnLog_def handleLockLog_def handleUnlockLog_def
      Let_def after_def)

theorem C10_removed_log_no_side_effect_witness:
  "Removed (mt_Raw (sample_mint True)) \<and> Removed (bn_Raw (sample_burn 60 True 137)) \<and>
   Removed (lk_Raw (sample_lock 60 True)) \<and> Removed (ul_Raw (sample_unlock True)) \<and>
   pushes (fst (handleMintLog (sample_watcher True 50) (sample_env 50) (sample_mint True))) = [] \<and>
   metrics (fst (handleMintLog (sample_watcher True 50) (sample_env 50) (sample_mint True))) = [] \<and>
   pushes (fst (handleBurnLog (sample_watcher True 50) (sample_env 50) (sample_burn 60 True 137))) = [] \<and>
   metrics (fst (handleBurnLog (sample_watcher True 50) (sample_env 50) (sample_burn 60 True 137))) = [] \<and>
   pushes (fst (handleLockLog (sample_watcher True 50) (sample_env 50) (sample_lock 60 True))) = [] \<and>
   metrics (fst (handleLockLog (sample_watcher True 50) (sample_env 50) (sample_lock 60 True))) = [] \<and>
   pushes (fst (handleUnlockLog (sample_watcher True 50) (sample_env 50) (sample_unlock True))) = [] \<and>
   metrics (fst (handleUnlockLog (sample_watcher True 50) (sample_env 50) (sample_unlock True))) = []"
proof -
  have r: "Removed (mt_Raw (sample_mint True))" "Removed (bn_Raw (sample_burn 60 True 137))"
    "Removed (lk_Raw (sample_lock 60 True))" "Removed (ul_Raw (sample_unlock True))"
    by (simp_all add: sample_mint_def sample_burn_def sample_lock_def sample_unlock_def sample_log_def)
  from r C10_removed_log_no_side_effect [of "sample_mint True" "sample_watcher True 50" "sample_env 50"
      "sample_burn 60 True 137" "sample_lock 60 True" "sample_unlock True"]
  show ?thesis by blast
qed

section \<open>Properties of the guarded status updates\<close>

lemma isValidStatus_iff: "isValidStatus status possibleStatuses \<longleftrightarrow> status \<in> set possibleStatuses"
  by (induction possibleStatuses) auto

lemma set_column_signature:
  "set_column ''signature_msg_status'' v r = r\<lparr>SignatureMsgStatus := v\<rparr>"
  by (simp add: set_column_def)

lemma updateSignatureStatus_rejects:
  "status \<notin> {StatusSignatureSubmitted, StatusSignatureMined, StatusSignatureFailed} \<Longrightarrow>
      updateSignatureStatus fault db txId status = (Some ErrInvalidStatus, db)"
  by (simp add: updateSignatureStatus_def baseUpdateStatus_def isValidStatus_iff)

lemma updateSignatureStatus_accepts:
  "status \<in> {StatusSignatureSubmitted, StatusSignatureMined, StatusSignatureFailed} \<Longrightarrow>
      updateSignatureStatus fault db txId status
        = UpdateColumn fault db txId ''signature_msg_status'' status"
  by (simp add: updateSignatureStatus_def baseUpdateStatus_def isValidStatus_iff)

lemma UpdateColumn_no_fault: "fst (UpdateColumn None db txId col v) = None"
  by (simp add: UpdateColumn_def)

lemma UpdateColumn_signature_stored:
  assumes "r \<in> set (snd (UpdateColumn None db txId ''signature_msg_status'' v))"
    and "TransactionID r = txId"
  shows "SignatureMsgStatus r = v"
proof -
  from assms(1) have
    "r \<in> (\<lambda>x. if TransactionID x = txId then set_column ''signature_msg_status'' v x else x) ` set db"
    by (simp add: UpdateColumn_def)
  then obtain x where
    r: "r = (if TransactionID x = txId then set_column ''signature_msg_status'' v x else x)"
    by (rule imageE)
  show ?thesis
  proof (cases "TransactionID x = txId")
    case True
    with r show ?thesis by (simp add: set_column_signature)
  next
    case False
    with r assms(2) show ?thesis by simp
  qed
qed

text \<open>
  C4 (as stated): every update of the SignatureMsgStatus track to a value outside
  \<open>{SignatureMined, SignatureFailed}\<close> returns an error and leaves the stored value
  unchanged. The code's allow-list also holds \<open>SignatureSubmitted\<close>: an update
  to it is accepted and overwrites a stored \<open>SignatureMined\<close>.
\<close>

theorem C4_submitted_is_accepted:
  "StatusSignatureSubmitted \<notin> {StatusSignatureMined, StatusSignatureFailed} \<and>
   updateSignatureStatus None [mined_row] ''0xabc-1'' StatusSignatureSubmitted
     = (None, [mined_row\<lparr>SignatureMsgStatus := StatusSignatureSubmitted\<rparr>]) \<and>
   SignatureMsgStatus mined_row \<noteq> StatusSignatureSubmitted"
  by (simp add: updateSignatureStatus_def baseUpdateStatus_def UpdateColumn_def set_column_def
      mined_row_def StatusSignatureSubmitted_def StatusSignatureMined_def StatusSignatureFailed_def)

text \<open>
  C4 (amended): an update of the SignatureMsgStatus track to a value outside the
  allow-list \<open>{SignatureSubmitted, SignatureMined, SignatureFailed}\<close> returns the
  "invalid status" error and leaves the table unchanged, whatever the database
  would have answered; an update to a value inside the allow-list passes the guard
  and is handed to the database, which, when it does not fail, returns no error and
  stores the value in the signature column of every row of that transaction.
\<close>

theorem C4_signature_allow_list:
  "(status \<notin> {StatusSignatureSubmitted, StatusSignatureMined, StatusSignatureFailed} \<longrightarrow>
      updateSignatureStatus fault db txId status = (Some ErrInvalidStatus, db)) \<and>
   (status \<in> {StatusSignatureSubmitted, StatusSignatureMined, StatusSignatureFailed} \<longrightarrow>
      updateSignatureStatus fault db txId status
        = UpdateColumn fault db txId ''signature_msg_status'' status \<and>
      fst (updateSignatureStatus None db txId status) = None \<and>
      (\<forall>r \<in> set (snd (updateSignatureStatus None db txId status)).
         TransactionID r = txId \<longrightarrow> SignatureMsgStatus r = status))"
  using updateSignatureStatus_rejects [of status fault db txId] updateSignatureStatus_accepts [of status fault db txId] updateSignatureStatus_accepts [of status None db txId]
    UpdateColumn_no_fault [of db txId "''signature_msg_status''" status] UpdateColumn_signature_stored [of _ db txId status]
  by metis

theorem C4_signature_allow_list_witness:
  "''bogus'' \<notin> {StatusSignatureSubmitted, StatusSignatureMined, StatusSignatureFailed} \<and>
   updateSignatureStatus None [mined_row] ''0xabc-1'' ''bogus'' = (Some ErrInvalidStatus, [mined_row]) \<and>
   StatusSignatureFailed \<in> {StatusSignatureSubmitted, StatusSignatureMined, StatusSignatureFailed} \<and>
   fst (updateSignatureStatus None [mined_row] ''0xabc-1'' StatusSignatureFailed) = None"
proof -
  have a: "''bogus'' \<notin> {StatusSignatureSubmitted, StatusSignatureMined, StatusSignatureFailed}"
    by (simp add: StatusSignatureSubmitted_def StatusSignatureMined_def StatusSignatureFailed_def)
  have b: "StatusSignatureFailed \<in> {StatusSignatureSubmitted, StatusSignatureMined, StatusSignatureFailed}"
    by simp
  from a C4_signature_allow_list [of "''bogus''" None "[mined_row]" "''0xabc-1''"]
  have c: "updateSignatureStatus None [mined_row] ''0xabc-1'' ''bogus'' = (Some ErrInvalidStatus, [mined_row])"
    by blast
  from b C4_signature_allow_list [of StatusSignatureFailed None "[mined_row]" "''0xabc-1''"]
  have d: "fst (updateSignatureStatus None [mined_row] ''0xabc-1'' StatusSignatureFailed) = None"
    by blast
  from a b c d show ?thesis by blast
qed

end
